theory Spec2Isabelle
  imports Main "HOL-Library.Product_Lexorder"
begin

section \<open>Python values used by \<^verbatim>\<open>last_project_activity.py\<close>\<close>

subsection \<open>Exceptions\<close>

text \<open>
  The exceptions that an \<^verbatim>\<open>except Exception\<close> clause handles. The source tells
  \<^verbatim>\<open>googleapiclient.errors.HttpError\<close> from every other subclass of
  \<^verbatim>\<open>Exception\<close>, and reads two things from an exception: \<^verbatim>\<open>e.resp.status\<close>
  (of an \<^verbatim>\<open>HttpError\<close>) and \<^verbatim>\<open>str(e)\<close>. A raising computation is a value
  \<open>Inl e\<close> of the sum type.
\<close>

datatype exn =
    HttpError nat string  \<comment> \<open>\<^verbatim>\<open>e.resp.status\<close> and \<^verbatim>\<open>str(e)\<close>\<close>
  | OtherException string  \<comment> \<open>\<^verbatim>\<open>str(e)\<close>\<close>

fun exn_str :: "exn \<Rightarrow> string" where
  "exn_str (HttpError status msg) = msg"
| "exn_str (OtherException msg) = msg"

text \<open>\<^verbatim>\<open>sub in s\<close> on strings: \<open>sub\<close> occurs in \<open>s\<close> as a contiguous run.\<close>

fun str_contains :: "string \<Rightarrow> string \<Rightarrow> bool" where
  "str_contains sub [] = (sub = [])"
| "str_contains sub (c # cs) = (take (length sub) (c # cs) = sub \<or> str_contains sub cs)"

text \<open>Truthiness of an optional string: \<^verbatim>\<open>None\<close> and \<^verbatim>\<open>''\<close> are false.\<close>

fun truthy_str :: "string option \<Rightarrow> bool" where
  "truthy_str None = False"
| "truthy_str (Some s) = (s \<noteq> [])"

subsection \<open>Timezone-aware datetimes\<close>

text \<open>
  Every datetime the program handles is timezone-aware: the Compute timestamps are
  RFC 3339 strings with an offset, the Storage client returns UTC datetimes and the
  Service-Usage probe reads \<^verbatim>\<open>datetime.now(timezone.utc)\<close>. A datetime is its
  civil fields and the offset of its \<^verbatim>\<open>tzinfo\<close> in seconds. Python compares and
  subtracts aware datetimes as instants on the UTC time line, computed here in
  microseconds since 0001-01-01T00:00:00 UTC, as \<^verbatim>\<open>datetime.py\<close> does from the
  proleptic Gregorian ordinal.
\<close>

record datetime =
  year :: nat
  month :: nat
  day :: nat
  hour :: nat
  minute :: nat
  second :: nat
  microsecond :: nat
  utcoffset :: int

definition is_leap :: "nat \<Rightarrow> bool" where
  "is_leap y = (y mod 4 = 0 \<and> (y mod 100 \<noteq> 0 \<or> y mod 400 = 0))"

definition days_before_year :: "nat \<Rightarrow> int" where
  "days_before_year y = (let y1 = int y - 1 in y1 * 365 + y1 div 4 - y1 div 100 + y1 div 400)"

definition days_before_month :: "nat \<Rightarrow> nat \<Rightarrow> int" where
  "days_before_month y m =
     (if m \<le> 1 then 0 else if m = 2 then 31 else if m = 3 then 59 else if m = 4 then 90
      else if m = 5 then 120 else if m = 6 then 151 else if m = 7 then 181
      else if m = 8 then 212 else if m = 9 then 243 else if m = 10 then 273
      else if m = 11 then 304 else 334)
     + (if m > 2 \<and> is_leap y then 1 else 0)"

definition toordinal :: "datetime \<Rightarrow> int" where
  "toordinal d = days_before_year (year d) + days_before_month (year d) (month d) + int (day d)"

definition instant :: "datetime \<Rightarrow> int" where
  "instant d =
     ((((toordinal d - 1) * 24 + int (hour d)) * 60 + int (minute d)) * 60 + int (second d)
        - utcoffset d) * 1000000 + int (microsecond d)"

text \<open>\<^verbatim>\<open>a > b\<close> on aware datetimes.\<close>

definition dt_gt :: "datetime \<Rightarrow> datetime \<Rightarrow> bool" where
  "dt_gt a b = (instant a > instant b)"


text \<open>\<^verbatim>\<open>datetime.datetime.min\<close>, 0001-01-01 00:00:00.\<close>

definition datetime_min :: datetime where
  "datetime_min = \<lparr>year = 1, month = 1, day = 1, hour = 0, minute = 0, second = 0,
     microsecond = 0, utcoffset = 0\<rparr>"


subsection \<open>Decimal rendering and \<^verbatim>\<open>strftime\<close>\<close>

definition digit_char :: "nat \<Rightarrow> char" where
  "digit_char n = ''0123456789'' ! (n mod 10)"

fun str_nat :: "nat \<Rightarrow> string" where
  "str_nat n = (if n < 10 then [digit_char n] else str_nat (n div 10) @ [digit_char n])"

declare str_nat.simps [simp del]


definition zero_pad :: "nat \<Rightarrow> string \<Rightarrow> string" where
  "zero_pad w s = replicate (w - length s) CHR ''0'' @ s"

text \<open>
  \<^verbatim>\<open>d.strftime(fmt)\<close> for the directives the program uses, as the C library
  behind it prints them: \<^verbatim>\<open>%Y\<close> is the year in decimal without padding (a year
  below 1000 has fewer than four digits), \<^verbatim>\<open>%m\<close>, \<^verbatim>\<open>%d\<close>, \<^verbatim>\<open>%H\<close>,
  \<^verbatim>\<open>%M\<close> and \<^verbatim>\<open>%S\<close> are zero-padded to two digits; every other character
  of the format is copied.
\<close>

definition directive :: "char \<Rightarrow> datetime \<Rightarrow> string" where
  "directive x d =
     (if x = CHR ''Y'' then str_nat (year d)
      else if x = CHR ''m'' then zero_pad 2 (str_nat (month d))
      else if x = CHR ''d'' then zero_pad 2 (str_nat (day d))
      else if x = CHR ''H'' then zero_pad 2 (str_nat (hour d))
      else if x = CHR ''M'' then zero_pad 2 (str_nat (minute d))
      else if x = CHR ''S'' then zero_pad 2 (str_nat (second d))
      else [CHR ''%'', x])"

fun strftime :: "string \<Rightarrow> datetime \<Rightarrow> string" where
  "strftime [] d = []"
| "strftime [c] d = [c]"
| "strftime (c # x # rest) d =
     (if c = CHR ''%'' then directive x d @ strftime rest d else c # strftime (x # rest) d)"

text \<open>\<^verbatim>\<open>activity_date.strftime('%Y-%m-%d %H:%M:%S')\<close>\<close>

definition strftime_ymd_hms :: "datetime \<Rightarrow> string" where
  "strftime_ymd_hms d = strftime ''%Y-%m-%d %H:%M:%S'' d"

section \<open>The cloud APIs as the probes see them\<close>

text \<open>
  What the three Google APIs answer for a project is the input of the program. Each
  call either raises or returns a response (a failure to build the client counts as
  the call raising); the responses keep the shape the source reads: optional keys are
  \<open>option\<close>s, listings are lists in listing order.
\<close>

text \<open>
  One VM instance of \<^verbatim>\<open>instances().aggregatedList\<close>. \<open>creationTimestamp\<close> is the
  outcome of \<^verbatim>\<open>fromisoformat(instance['creationTimestamp'].replace('Z', '+00:00'))\<close>:
  a \<^verbatim>\<open>KeyError\<close> or \<^verbatim>\<open>ValueError\<close>, or the parsed datetime.
  \<open>lastStartTimestamp\<close> is \<open>None\<close> when the key is absent.
\<close>

record vm_instance =
  creationTimestamp :: "exn + datetime"
  lastStartTimestamp :: "(exn + datetime) option"

text \<open>The \<^verbatim>\<open>'items'\<close> of the response: per zone, the optional \<^verbatim>\<open>'instances'\<close> list.\<close>

record compute_response =
  items :: "(string \<times> vm_instance list option) list option"

record blob =
  blob_updated :: "datetime option"

text \<open>
  A bucket with the outcome of \<^verbatim>\<open>list(client.list_blobs(bucket.name, max_results=10))\<close>
  on it; \<open>bucket_blobs\<close> is the whole listing, of which the call returns the first ten.
\<close>

record bucket =
  bucket_name :: string
  time_created :: datetime
  bucket_updated :: "datetime option"
  bucket_blobs :: "exn + blob list"

text \<open>The response of \<^verbatim>\<open>services().list\<close>: the optional \<^verbatim>\<open>'services'\<close> key.\<close>

record services_response =
  services :: "string list option"

record cloud =
  compute_aggregatedList :: "string \<Rightarrow> exn + compute_response"
  storage_list_buckets :: "string \<Rightarrow> exn + bucket list"
  serviceusage_list :: "string \<Rightarrow> exn + services_response"
  utc_now :: datetime  \<comment> \<open>\<^verbatim>\<open>datetime.now(timezone.utc)\<close> when the probe reads the clock\<close>

section \<open>The activity probes\<close>

type_synonym probe_result = "datetime option \<times> string option"

text \<open>
  A \<^verbatim>\<open>try\<close> statement: the value of the body, or of the handlers on the exception
  the body raised. The handlers return \<open>Inl\<close> when they raise themselves.
\<close>

definition try_except :: "exn + 'a \<Rightarrow> (exn \<Rightarrow> exn + 'a) \<Rightarrow> exn + 'a" where
  "try_except body handlers = (case body of Inl e \<Rightarrow> handlers e | Inr v \<Rightarrow> Inr v)"

text \<open>\<^verbatim>\<open>if latest_activity is None or x > latest_activity: latest_activity = x\<close>\<close>

definition later :: "datetime option \<Rightarrow> datetime \<Rightarrow> datetime option" where
  "later latest_activity x =
     (case latest_activity of None \<Rightarrow> Some x
      | Some l \<Rightarrow> if dt_gt x l then Some x else Some l)"

text \<open>\<^verbatim>\<open>if x and (latest_activity is None or x > latest_activity): latest_activity = x\<close>\<close>

definition later_opt :: "datetime option \<Rightarrow> datetime option \<Rightarrow> datetime option" where
  "later_opt latest_activity x =
     (case x of None \<Rightarrow> latest_activity | Some t \<Rightarrow> later latest_activity t)"

subsection \<open>\<^verbatim>\<open>check_compute_last_activity\<close>\<close>

definition instance_step :: "datetime option \<Rightarrow> vm_instance \<Rightarrow> exn + datetime option" where
  "instance_step latest_activity i =
     (case creationTimestamp i of
        Inl e \<Rightarrow> Inl e
      | Inr created \<Rightarrow>
          (case lastStartTimestamp i of
             None \<Rightarrow> Inr (later latest_activity created)
           | Some (Inl e) \<Rightarrow> Inl e
           | Some (Inr last_start) \<Rightarrow> Inr (later (later latest_activity created) last_start)))"

fun instances_loop :: "datetime option \<Rightarrow> vm_instance list \<Rightarrow> exn + datetime option" where
  "instances_loop latest_activity [] = Inr latest_activity"
| "instances_loop latest_activity (i # is) =
     (case instance_step latest_activity i of
        Inl e \<Rightarrow> Inl e
      | Inr latest \<Rightarrow> instances_loop latest is)"

fun zones_loop ::
  "datetime option \<Rightarrow> (string \<times> vm_instance list option) list \<Rightarrow> exn + datetime option" where
  "zones_loop latest_activity [] = Inr latest_activity"
| "zones_loop latest_activity ((zone, instances) # zs) =
     (case instances of
        None \<Rightarrow> zones_loop latest_activity zs
      | Some is \<Rightarrow>
          (case instances_loop latest_activity is of
             Inl e \<Rightarrow> Inl e
           | Inr latest \<Rightarrow> zones_loop latest zs))"

definition compute_body :: "cloud \<Rightarrow> string \<Rightarrow> exn + probe_result" where
  "compute_body c project_id =
     (case compute_aggregatedList c project_id of
        Inl e \<Rightarrow> Inl e
      | Inr response \<Rightarrow>
          (case zones_loop None (case items response of None \<Rightarrow> [] | Some its \<Rightarrow> its) of
             Inl e \<Rightarrow> Inl e
           | Inr latest_activity \<Rightarrow> Inr (latest_activity, None)))"

fun compute_handlers :: "exn \<Rightarrow> exn + probe_result" where
  "compute_handlers (HttpError status msg) =
     (if status = 403 \<and> str_contains ''accessNotConfigured'' msg
      then Inr (None, Some ''API not enabled'')
      else Inr (None, Some msg))"
| "compute_handlers (OtherException msg) = Inr (None, Some msg)"

definition check_compute_last_activity :: "cloud \<Rightarrow> string \<Rightarrow> exn + probe_result" where
  "check_compute_last_activity c project_id =
     try_except (compute_body c project_id) compute_handlers"

subsection \<open>\<^verbatim>\<open>check_storage_last_activity\<close>\<close>

fun blobs_loop :: "datetime option \<Rightarrow> blob list \<Rightarrow> datetime option" where
  "blobs_loop latest_activity [] = latest_activity"
| "blobs_loop latest_activity (b # bs) =
     blobs_loop (later_opt latest_activity (blob_updated b)) bs"

fun buckets_loop :: "datetime option \<Rightarrow> bucket list \<Rightarrow> exn + datetime option" where
  "buckets_loop latest_activity [] = Inr latest_activity"
| "buckets_loop latest_activity (b # bs) =
     (let latest = later_opt (later latest_activity (time_created b)) (bucket_updated b)
      in case bucket_blobs b of
           Inl e \<Rightarrow> Inl e
         | Inr blobs \<Rightarrow> buckets_loop (blobs_loop latest (take 10 blobs)) bs)"

definition storage_body :: "cloud \<Rightarrow> string \<Rightarrow> exn + probe_result" where
  "storage_body c project_id =
     (case storage_list_buckets c project_id of
        Inl e \<Rightarrow> Inl e
      | Inr buckets \<Rightarrow>
          (case buckets_loop None buckets of
             Inl e \<Rightarrow> Inl e
           | Inr latest_activity \<Rightarrow> Inr (latest_activity, None)))"

definition storage_handlers :: "exn \<Rightarrow> exn + probe_result" where
  "storage_handlers e =
     (if str_contains ''accessNotConfigured'' (exn_str e)
      then Inr (None, Some ''API not enabled'')
      else Inr (None, Some (exn_str e)))"

definition check_storage_last_activity :: "cloud \<Rightarrow> string \<Rightarrow> exn + probe_result" where
  "check_storage_last_activity c project_id =
     try_except (storage_body c project_id) storage_handlers"

subsection \<open>\<^verbatim>\<open>check_api_usage_last_activity\<close>\<close>

definition api_usage_body :: "cloud \<Rightarrow> string \<Rightarrow> exn + probe_result" where
  "api_usage_body c project_id =
     (case serviceusage_list c project_id of
        Inl e \<Rightarrow> Inl e
      | Inr response \<Rightarrow>
          (if services response \<noteq> None then Inr (Some (utc_now c), None)
           else Inr (None, None)))"

fun api_usage_handlers :: "exn \<Rightarrow> exn + probe_result" where
  "api_usage_handlers (HttpError status msg) =
     (if status = 403 \<and> str_contains ''accessNotConfigured'' msg
      then Inr (None, Some ''API not enabled'')
      else Inr (None, Some msg))"
| "api_usage_handlers (OtherException msg) = Inr (None, Some msg)"

definition check_api_usage_last_activity :: "cloud \<Rightarrow> string \<Rightarrow> exn + probe_result" where
  "check_api_usage_last_activity c project_id =
     try_except (api_usage_body c project_id) api_usage_handlers"

section \<open>The aggregator: \<^verbatim>\<open>get_project_last_activity\<close>\<close>

text \<open>
  The Activity record is the dictionary the aggregator returns; it has the same four
  keys on both of its return paths.
\<close>

record activity =
  project_id :: string
  last_activity_date :: "datetime option"
  activity_source :: string
  access_issues :: "string option"

text \<open>
  The aggregator calls the three probes through their module-level names. The model
  takes what these names are bound to as a parameter, so that it also says what the
  aggregator does with a probe that raises; \<open>gcp_probes\<close> binds them to the
  functions of the module.
\<close>

record probes =
  compute_probe :: "string \<Rightarrow> exn + probe_result"
  storage_probe :: "string \<Rightarrow> exn + probe_result"
  api_usage_probe :: "string \<Rightarrow> exn + probe_result"

definition gcp_probes :: "cloud \<Rightarrow> probes" where
  "gcp_probes c =
     \<lparr>compute_probe = check_compute_last_activity c,
      storage_probe = check_storage_last_activity c,
      api_usage_probe = check_api_usage_last_activity c\<rparr>"

datatype probe_name = Compute | Storage | ApiUsage

text \<open>\<^verbatim>\<open>if error: access_issues.append(f"{prefix}{error}")\<close>\<close>

definition note_issue :: "string \<Rightarrow> string option \<Rightarrow> string list \<Rightarrow> string list" where
  "note_issue prefix error issues =
     (case error of
        None \<Rightarrow> issues
      | Some msg \<Rightarrow> if truthy_str error then issues @ [prefix @ msg] else issues)"

text \<open>
  \<^verbatim>\<open>if activity and (last_activity_date is None or activity > last_activity_date):\<close>
  the new date and source, on the pair of the two local variables.
\<close>

definition take_if_later ::
  "string \<Rightarrow> datetime option \<Rightarrow> datetime option \<times> string \<Rightarrow> datetime option \<times> string" where
  "take_if_later source activity cur =
     (case activity of
        None \<Rightarrow> cur
      | Some t \<Rightarrow>
          (case fst cur of
             None \<Rightarrow> (Some t, source)
           | Some l \<Rightarrow> if dt_gt t l then (Some t, source) else cur))"

text \<open>\<^verbatim>\<open>sep.join(xs)\<close>\<close>

fun str_join :: "string \<Rightarrow> string list \<Rightarrow> string" where
  "str_join sep [] = []"
| "str_join sep [x] = x"
| "str_join sep (x # y # ys) = x @ sep @ str_join sep (y # ys)"

definition project_info :: "string \<Rightarrow> datetime option \<times> string \<Rightarrow> string list \<Rightarrow> activity" where
  "project_info pid cur issues =
     \<lparr>project_id = pid, last_activity_date = fst cur, activity_source = snd cur,
      access_issues = (if issues \<noteq> [] then Some (str_join ''; '' issues) else None)\<rparr>"

text \<open>
  The body of the \<^verbatim>\<open>try\<close> block, with the probes it has called so far, in call
  order, beside its outcome.
\<close>

definition aggregate_body :: "probes \<Rightarrow> string \<Rightarrow> (exn + activity) \<times> probe_name list" where
  "aggregate_body P pid =
     (case compute_probe P pid of
        Inl e \<Rightarrow> (Inl e, [Compute])
      | Inr (compute_activity, compute_error) \<Rightarrow>
          (let issues1 = note_issue ''Compute: '' compute_error [];
               cur1 = take_if_later ''Compute Engine'' compute_activity (None, ''None'')
           in case storage_probe P pid of
                Inl e \<Rightarrow> (Inl e, [Compute, Storage])
              | Inr (storage_activity, storage_error) \<Rightarrow>
                  (let issues2 = note_issue ''Storage: '' storage_error issues1;
                       cur2 = take_if_later ''Cloud Storage'' storage_activity cur1
                   in if fst cur2 = None then
                        (case api_usage_probe P pid of
                           Inl e \<Rightarrow> (Inl e, [Compute, Storage, ApiUsage])
                         | Inr (api_activity, api_error) \<Rightarrow>
                             (let issues3 = note_issue ''API: '' api_error issues2;
                                  cur3 = (case api_activity of
                                            None \<Rightarrow> cur2
                                          | Some t \<Rightarrow> (Some t, ''API Usage''))
                              in (Inr (project_info pid cur3 issues3),
                                  [Compute, Storage, ApiUsage])))
                      else (Inr (project_info pid cur2 issues2), [Compute, Storage]))))"

text \<open>The \<^verbatim>\<open>except Exception as e\<close> clause of the aggregator.\<close>

definition error_info :: "string \<Rightarrow> exn \<Rightarrow> activity" where
  "error_info pid e =
     \<lparr>project_id = pid, last_activity_date = None, activity_source = ''Error'',
      access_issues = Some (exn_str e)\<rparr>"

definition get_project_last_activity_with :: "probes \<Rightarrow> string \<Rightarrow> activity" where
  "get_project_last_activity_with P pid =
     (case fst (aggregate_body P pid) of
        Inl e \<Rightarrow> error_info pid e
      | Inr info \<Rightarrow> info)"

definition probes_called :: "probes \<Rightarrow> string \<Rightarrow> probe_name list" where
  "probes_called P pid = snd (aggregate_body P pid)"

definition get_project_last_activity :: "cloud \<Rightarrow> string \<Rightarrow> activity" where
  "get_project_last_activity c pid = get_project_last_activity_with (gcp_probes c) pid"

subsection \<open>The returned dictionary\<close>

text \<open>
  The value the aggregator returns is a dictionary, of which the record above is the
  reading by key. On the normal path it is created with the key \<^verbatim>\<open>"project_id"\<close>
  and the three assignments \<^verbatim>\<open>project_info[key] = value\<close> follow; on the error path
  it is the literal of the \<^verbatim>\<open>except\<close> clause. A dictionary is the list of its
  items in insertion order.
\<close>

datatype pyval = PNone | PStr string | PDatetime datetime

type_synonym pydict = "(string \<times> pyval) list"

text \<open>\<^verbatim>\<open>d[k] = v\<close>\<close>

definition dict_set :: "string \<Rightarrow> pyval \<Rightarrow> pydict \<Rightarrow> pydict" where
  "dict_set k v d =
     (if k \<in> fst ` set d
      then map (\<lambda>(k', v'). if k' = k then (k', v) else (k', v')) d
      else d @ [(k, v)])"

definition dict_keys :: "pydict \<Rightarrow> string list" where
  "dict_keys d = map fst d"

definition info_dict :: "activity \<Rightarrow> pydict" where
  "info_dict info =
     dict_set ''access_issues''
       (case access_issues info of None \<Rightarrow> PNone | Some s \<Rightarrow> PStr s)
       (dict_set ''activity_source'' (PStr (activity_source info))
          (dict_set ''last_activity_date''
             (case last_activity_date info of None \<Rightarrow> PNone | Some t \<Rightarrow> PDatetime t)
             [(''project_id'', PStr (project_id info))]))"

definition error_dict :: "string \<Rightarrow> exn \<Rightarrow> pydict" where
  "error_dict pid e =
     [(''project_id'', PStr pid), (''last_activity_date'', PNone),
      (''activity_source'', PStr ''Error''), (''access_issues'', PStr (exn_str e))]"

definition returned_dict :: "probes \<Rightarrow> string \<Rightarrow> pydict" where
  "returned_dict P pid =
     (case fst (aggregate_body P pid) of
        Inl e \<Rightarrow> error_dict pid e
      | Inr info \<Rightarrow> info_dict info)"

section \<open>The sort of \<^verbatim>\<open>main\<close>\<close>

text \<open>
  The key of \<^verbatim>\<open>projects_activity.sort(key=..., reverse=True)\<close>: the pair of
  \<^verbatim>\<open>x['last_activity_date'] is None\<close> and the date, \<^verbatim>\<open>datetime.min\<close> for a missing
  one. Python compares the pairs lexicographically, \<^verbatim>\<open>False < True\<close>, and the
  dates as instants.
\<close>

definition sort_key_of :: "activity \<Rightarrow> bool \<times> int" where
  "sort_key_of x =
     (last_activity_date x = None,
      case last_activity_date x of None \<Rightarrow> instant datetime_min | Some d \<Rightarrow> instant d)"

text \<open>
  \<^verbatim>\<open>list.sort\<close> is stable, and with \<^verbatim>\<open>reverse=True\<close> it reverses the list, sorts it
  ascending and reverses it again, so that equal keys keep their order.
\<close>

definition sort_projects :: "activity list \<Rightarrow> activity list" where
  "sort_projects xs = rev (sort_key sort_key_of (rev xs))"

section \<open>The report writer: \<^verbatim>\<open>write_to_excel\<close>\<close>

text \<open>
  The worksheet as the writer uses it: the cells that exist, by (row, column), the
  extent \<^verbatim>\<open>ws.max_row\<close> and \<^verbatim>\<open>ws.max_column\<close> of these cells, and the column
  widths (keyed by the column's index, which stands for its letter). Fonts and fills do
  not change a value or a width and are left out. With aware datetimes nothing in the
  body of the writer raises, so its \<^verbatim>\<open>except\<close> clause has no branch here; saving
  the workbook is outside the model.
\<close>

datatype cell_value = CNone | CStr string | CInt int

record worksheet =
  title :: string
  cells :: "nat \<times> nat \<Rightarrow> cell_value option"
  max_row :: nat
  max_column :: nat
  column_width :: "nat \<Rightarrow> nat option"


text \<open>\<^verbatim>\<open>ws.cell(row=r, column=c, value=v)\<close>\<close>

definition ws_cell :: "nat \<Rightarrow> nat \<Rightarrow> cell_value \<Rightarrow> worksheet \<Rightarrow> worksheet" where
  "ws_cell r c v ws =
     ws\<lparr>cells := (cells ws)((r, c) := Some v), max_row := max (max_row ws) r,
        max_column := max (max_column ws) c\<rparr>"














section \<open>Notions used to state the properties\<close>

text \<open>
  The condition under which the Compute and the Service-Usage probe answer with the
  marker: the test of their \<^verbatim>\<open>except HttpError\<close> clause.
\<close>

definition http_access_denied :: "exn \<Rightarrow> bool" where
  "http_access_denied e =
     (case e of
        HttpError status msg \<Rightarrow> status = 403 \<and> str_contains ''accessNotConfigured'' msg
      | OtherException msg \<Rightarrow> False)"

text \<open>The entry that a probe's error adds to \<^verbatim>\<open>access_issues\<close>, if any.\<close>

definition issue_of :: "string \<Rightarrow> string option \<Rightarrow> string list" where
  "issue_of prefix error =
     (case error of None \<Rightarrow> [] | Some msg \<Rightarrow> if msg = [] then [] else [prefix @ msg])"

text \<open>
  The entries of the probes that the aggregator calls, in call order: Compute and
  Storage always, Service-Usage when neither of them returned a timestamp.
\<close>

definition issues_called ::
  "datetime option \<Rightarrow> string option \<Rightarrow> datetime option \<Rightarrow> string option \<Rightarrow> string option
     \<Rightarrow> string list" where
  "issues_called ca ce sa se ae =
     issue_of ''Compute: '' ce @ issue_of ''Storage: '' se
     @ (if ca = None \<and> sa = None then issue_of ''API: '' ae else [])"

text \<open>
  The tie rule in the words of the specification: of the timestamps that the probes
  returned, listed in evaluation order with their sources, the source of the first one
  that no other exceeds; \<open>''None''\<close> when no probe returned one.
\<close>

definition first_at_maximum :: "(string \<times> datetime option) list \<Rightarrow> string" where
  "first_at_maximum rs =
     (let ts = [(s, t). (s, Some t) \<leftarrow> rs]
      in case filter (\<lambda>(s, t). \<forall>(s', t') \<in> set ts. instant t' \<le> instant t) ts of
           [] \<Rightarrow> ''None''
         | (s, t) # rest \<Rightarrow> s)"








section \<open>Example inputs\<close>

definition utc :: "nat \<Rightarrow> nat \<Rightarrow> nat \<Rightarrow> nat \<Rightarrow> nat \<Rightarrow> nat \<Rightarrow> datetime" where
  "utc y mo d h mi s =
     \<lparr>year = y, month = mo, day = d, hour = h, minute = mi, second = s, microsecond = 0,
      utcoffset = 0\<rparr>"

definition dated :: "string \<Rightarrow> datetime option \<Rightarrow> activity" where
  "dated pid d =
     \<lparr>project_id = pid, last_activity_date = d,
      activity_source = (if d = None then ''None'' else ''Compute Engine''),
      access_issues = None\<rparr>"

text \<open>A project on which none of the three APIs is enabled.\<close>

definition api_disabled :: exn where
  "api_disabled = HttpError 403 ''<HttpError 403: accessNotConfigured>''"

definition cloud_api_disabled :: cloud where
  "cloud_api_disabled =
     \<lparr>compute_aggregatedList = (\<lambda>pid. Inl api_disabled),
      storage_list_buckets = (\<lambda>pid. Inl api_disabled),
      serviceusage_list = (\<lambda>pid. Inl api_disabled),
      utc_now = utc 2025 6 1 12 0 0\<rparr>"

text \<open>
  A project without buckets or enabled services, on which the Compute call fails with
  an exception whose message is empty.
\<close>

definition cloud_empty_message :: cloud where
  "cloud_empty_message =
     \<lparr>compute_aggregatedList = (\<lambda>pid. Inl (OtherException [])),
      storage_list_buckets = (\<lambda>pid. Inr []),
      serviceusage_list = (\<lambda>pid. Inr \<lparr>services = None\<rparr>),
      utc_now = utc 2025 6 1 12 0 0\<rparr>"

text \<open>A project without instances or buckets, with one enabled service.\<close>

definition cloud_services_only :: cloud where
  "cloud_services_only =
     \<lparr>compute_aggregatedList = (\<lambda>pid. Inr \<lparr>items = None\<rparr>),
      storage_list_buckets = (\<lambda>pid. Inr []),
      serviceusage_list = (\<lambda>pid. Inr \<lparr>services = Some [''compute.googleapis.com'']\<rparr>),
      utc_now = utc 2025 6 1 12 0 0\<rparr>"

text \<open>Midnight UTC on 2025-01-01, and the same instant written with the offset +01:00.\<close>

definition new_year_utc :: datetime where
  "new_year_utc = utc 2025 1 1 0 0 0"

definition new_year_cet :: datetime where
  "new_year_cet = (utc 2025 1 1 1 0 0)\<lparr>utcoffset := 3600\<rparr>"

text \<open>
  The dates of the sorting example, and a report written on 2025-06-11, ten days after
  the activity of its first project.
\<close>

definition jan_1_2024 :: datetime where
  "jan_1_2024 = utc 2024 1 1 0 0 0"

definition june_1 :: datetime where
  "june_1 = utc 2025 6 1 0 0 0"






text \<open>Probes with a fixed outcome, whatever the project.\<close>

definition fixed_probes ::
  "exn + probe_result \<Rightarrow> exn + probe_result \<Rightarrow> exn + probe_result \<Rightarrow> probes" where
  "fixed_probes c s a =
     \<lparr>compute_probe = (\<lambda>pid. c), storage_probe = (\<lambda>pid. s), api_usage_probe = (\<lambda>pid. a)\<rparr>"

section \<open>The probes capture their failures\<close>

lemma compute_handlers_returns: "\<exists>m. compute_handlers e = Inr (None, Some m)"
  by (cases e) auto

lemma storage_handlers_returns: "\<exists>m. storage_handlers e = Inr (None, Some m)"
  by (auto simp: storage_handlers_def)

lemma api_usage_handlers_returns: "\<exists>m. api_usage_handlers e = Inr (None, Some m)"
  by (cases e) auto

lemma check_compute_returns: "\<exists>a m. check_compute_last_activity c pid = Inr (a, m)"
proof (cases "compute_body c pid")
  case (Inl e)
  obtain m where "compute_handlers e = Inr (None, Some m)"
    using compute_handlers_returns by blast
  with Inl show ?thesis
    by (simp add: check_compute_last_activity_def try_except_def)
next
  case (Inr r)
  then show ?thesis
    by (cases r) (simp add: check_compute_last_activity_def try_except_def)
qed

lemma check_storage_returns: "\<exists>a m. check_storage_last_activity c pid = Inr (a, m)"
proof (cases "storage_body c pid")
  case (Inl e)
  obtain m where "storage_handlers e = Inr (None, Some m)"
    using storage_handlers_returns by blast
  with Inl show ?thesis
    by (simp add: check_storage_last_activity_def try_except_def)
next
  case (Inr r)
  then show ?thesis
    by (cases r) (simp add: check_storage_last_activity_def try_except_def)
qed

lemma check_api_usage_returns: "\<exists>a m. check_api_usage_last_activity c pid = Inr (a, m)"
proof (cases "api_usage_body c pid")
  case (Inl e)
  obtain m where "api_usage_handlers e = Inr (None, Some m)"
    using api_usage_handlers_returns by blast
  with Inl show ?thesis
    by (simp add: check_api_usage_last_activity_def try_except_def)
next
  case (Inr r)
  then show ?thesis
    by (cases r) (simp add: check_api_usage_last_activity_def try_except_def)
qed

text \<open>
  Claim C3. Each of the three probes returns a pair of an optional timestamp and an
  optional error string on every input, so no exception leaves it. When the body of a
  probe raises \<open>e\<close>, the probe returns no timestamp and an error string: the marker
  \<open>''API not enabled''\<close> when \<open>e\<close> is the access-denied condition the probe tests
  for (an \<^verbatim>\<open>HttpError\<close> with status 403 and \<^verbatim>\<open>accessNotConfigured\<close> in its text
  for Compute and Service-Usage, \<^verbatim>\<open>accessNotConfigured\<close> in the text of any
  exception for Storage), and the message of \<open>e\<close> otherwise.
\<close>

theorem probes_capture_failures:
  "(\<exists>a m. check_compute_last_activity c pid = Inr (a, m))
   \<and> (\<exists>a m. check_storage_last_activity c pid = Inr (a, m))
   \<and> (\<exists>a m. check_api_usage_last_activity c pid = Inr (a, m))
   \<and> (compute_body c pid = Inl e \<longrightarrow>
        check_compute_last_activity c pid =
          Inr (None, Some (if http_access_denied e then ''API not enabled'' else exn_str e)))
   \<and> (storage_body c pid = Inl e \<longrightarrow>
        check_storage_last_activity c pid =
          Inr (None, Some (if str_contains ''accessNotConfigured'' (exn_str e)
                           then ''API not enabled'' else exn_str e)))
   \<and> (api_usage_body c pid = Inl e \<longrightarrow>
        check_api_usage_last_activity c pid =
          Inr (None, Some (if http_access_denied e then ''API not enabled'' else exn_str e)))"
proof -
  have c: "compute_body c pid = Inl e \<Longrightarrow> check_compute_last_activity c pid =
          Inr (None, Some (if http_access_denied e then ''API not enabled'' else exn_str e))"
    by (cases e)
      (simp_all add: check_compute_last_activity_def try_except_def http_access_denied_def)
  have s: "storage_body c pid = Inl e \<Longrightarrow> check_storage_last_activity c pid =
          Inr (None, Some (if str_contains ''accessNotConfigured'' (exn_str e)
                           then ''API not enabled'' else exn_str e))"
    by (simp add: check_storage_last_activity_def try_except_def storage_handlers_def)
  have a: "api_usage_body c pid = Inl e \<Longrightarrow> check_api_usage_last_activity c pid =
          Inr (None, Some (if http_access_denied e then ''API not enabled'' else exn_str e))"
    by (cases e)
      (simp_all add: check_api_usage_last_activity_def try_except_def http_access_denied_def)
  show ?thesis
    using check_compute_returns check_storage_returns check_api_usage_returns c s a by blast
qed

lemma api_disabled_bodies:
  "compute_body cloud_api_disabled pid = Inl api_disabled"
  "storage_body cloud_api_disabled pid = Inl api_disabled"
  "api_usage_body cloud_api_disabled pid = Inl api_disabled"
  by (simp_all add: compute_body_def storage_body_def api_usage_body_def cloud_api_disabled_def)

lemma api_disabled_marker:
  "http_access_denied api_disabled"
  "str_contains ''accessNotConfigured'' (exn_str api_disabled)"
  by (simp_all add: http_access_denied_def api_disabled_def)

theorem probes_capture_failures_witness:
  "compute_body cloud_api_disabled ''p1'' = Inl api_disabled
   \<and> storage_body cloud_api_disabled ''p1'' = Inl api_disabled
   \<and> api_usage_body cloud_api_disabled ''p1'' = Inl api_disabled
   \<and> check_compute_last_activity cloud_api_disabled ''p1'' = Inr (None, Some ''API not enabled'')
   \<and> check_storage_last_activity cloud_api_disabled ''p1'' = Inr (None, Some ''API not enabled'')
   \<and> check_api_usage_last_activity cloud_api_disabled ''p1'' = Inr (None, Some ''API not enabled'')"
  using probes_capture_failures [of cloud_api_disabled "''p1''" api_disabled]
  by (simp add: api_disabled_bodies api_disabled_marker)

section \<open>The aggregator\<close>

subsection \<open>What the \<^verbatim>\<open>try\<close> block computes\<close>

lemma note_issue_eq: "note_issue prefix error issues = issues @ issue_of prefix error"
  by (cases error) (simp_all add: note_issue_def issue_of_def)

lemma aggregate_body_found:
  assumes "compute_probe P pid = Inr (ca, ce)" and "storage_probe P pid = Inr (sa, se)"
    and "ca \<noteq> None \<or> sa \<noteq> None"
  shows "aggregate_body P pid =
     (Inr (project_info pid
             (take_if_later ''Cloud Storage'' sa (take_if_later ''Compute Engine'' ca (None, ''None'')))
             (issue_of ''Compute: '' ce @ issue_of ''Storage: '' se)),
      [Compute, Storage])"
  using assms
  by (cases ca; cases sa)
     (auto simp: aggregate_body_def Let_def note_issue_eq take_if_later_def)

lemma aggregate_body_fallback:
  assumes "compute_probe P pid = Inr (None, ce)" and "storage_probe P pid = Inr (None, se)"
    and "api_usage_probe P pid = Inr (aa, ae)"
  shows "aggregate_body P pid =
     (Inr (project_info pid
             (case aa of None \<Rightarrow> (None, ''None'') | Some t \<Rightarrow> (Some t, ''API Usage''))
             (issue_of ''Compute: '' ce @ issue_of ''Storage: '' se @ issue_of ''API: '' ae)),
      [Compute, Storage, ApiUsage])"
  using assms
  by (cases aa) (simp_all add: aggregate_body_def Let_def note_issue_eq take_if_later_def)

lemma aggregate_body_raises_iff:
  "fst (aggregate_body P pid) = Inl e \<longleftrightarrow>
     compute_probe P pid = Inl e
     \<or> (\<exists>r. compute_probe P pid = Inr r) \<and> storage_probe P pid = Inl e
     \<or> (\<exists>ce se. compute_probe P pid = Inr (None, ce) \<and> storage_probe P pid = Inr (None, se))
        \<and> api_usage_probe P pid = Inl e"
  by (auto simp: aggregate_body_def Let_def take_if_later_def
      split: sum.splits prod.splits option.splits if_splits)

lemma gcp_probes_simps:
  "compute_probe (gcp_probes c) = check_compute_last_activity c"
  "storage_probe (gcp_probes c) = check_storage_last_activity c"
  "api_usage_probe (gcp_probes c) = check_api_usage_last_activity c"
  by (simp_all add: gcp_probes_def)

lemma normal_source_not_error:
  "fst (aggregate_body P pid) = Inr info \<Longrightarrow> activity_source info \<noteq> ''Error''"
  by (auto simp: aggregate_body_def Let_def take_if_later_def project_info_def
      split: sum.splits prod.splits option.splits if_splits)

lemma source_error_raised:
  "activity_source (get_project_last_activity_with P pid) = ''Error'' \<Longrightarrow> \<exists>e. fst (aggregate_body P pid) = Inl e"
  using normal_source_not_error [of P pid]
  by (cases "fst (aggregate_body P pid)") (auto simp: get_project_last_activity_with_def)


lemma get_with_found:
  assumes "compute_probe P pid = Inr (ca, ce)" and "storage_probe P pid = Inr (sa, se)"
    and "ca \<noteq> None \<or> sa \<noteq> None"
  shows "get_project_last_activity_with P pid =
     project_info pid
       (take_if_later ''Cloud Storage'' sa (take_if_later ''Compute Engine'' ca (None, ''None'')))
       (issue_of ''Compute: '' ce @ issue_of ''Storage: '' se)"
    and "probes_called P pid = [Compute, Storage]"
  using aggregate_body_found [OF assms]
  by (simp_all add: get_project_last_activity_with_def probes_called_def)

lemma get_with_fallback:
  assumes "compute_probe P pid = Inr (None, ce)" and "storage_probe P pid = Inr (None, se)"
    and "api_usage_probe P pid = Inr (aa, ae)"
  shows "get_project_last_activity_with P pid =
     project_info pid
       (case aa of None \<Rightarrow> (None, ''None'') | Some t \<Rightarrow> (Some t, ''API Usage''))
       (issue_of ''Compute: '' ce @ issue_of ''Storage: '' se @ issue_of ''API: '' ae)"
    and "probes_called P pid = [Compute, Storage, ApiUsage]"
  using aggregate_body_fallback [OF assms]
  by (simp_all add: get_project_last_activity_with_def probes_called_def)

lemma api_disabled_probes:
  "check_compute_last_activity cloud_api_disabled pid = Inr (None, Some ''API not enabled'')"
  "check_storage_last_activity cloud_api_disabled pid = Inr (None, Some ''API not enabled'')"
  "check_api_usage_last_activity cloud_api_disabled pid = Inr (None, Some ''API not enabled'')"
  by (simp_all add: check_compute_last_activity_def check_storage_last_activity_def
      check_api_usage_last_activity_def try_except_def api_disabled_bodies api_disabled_def
      storage_handlers_def)

lemma api_disabled_activity:
  "get_project_last_activity cloud_api_disabled pid =
     \<lparr>project_id = pid, last_activity_date = None, activity_source = ''None'',
      access_issues =
        Some ''Compute: API not enabled; Storage: API not enabled; API: API not enabled''\<rparr>"
  unfolding get_project_last_activity_def
  by (subst get_with_fallback [where ce = "Some ''API not enabled''"
        and se = "Some ''API not enabled''" and aa = None and ae = "Some ''API not enabled''"])
     (simp_all add: gcp_probes_simps api_disabled_probes project_info_def issue_of_def)

subsection \<open>The error path\<close>

text \<open>
  Claim C7. When an exception \<open>e\<close> is raised during the aggregation of a project (by
  the Compute probe, by the Storage probe after the Compute probe returned, or by the
  Service-Usage probe when it is called), the aggregator still returns a record for
  the project: its date is null, its source is \<open>''Error''\<close> and its access issues
  are the message of \<open>e\<close>.
\<close>

theorem aggregation_error_record:
  assumes "compute_probe P pid = Inl e
     \<or> (\<exists>r. compute_probe P pid = Inr r) \<and> storage_probe P pid = Inl e
     \<or> (\<exists>ce se. compute_probe P pid = Inr (None, ce) \<and> storage_probe P pid = Inr (None, se))
        \<and> api_usage_probe P pid = Inl e"
  shows "get_project_last_activity_with P pid =
     \<lparr>project_id = pid, last_activity_date = None, activity_source = ''Error'',
      access_issues = Some (exn_str e)\<rparr>"
proof -
  from assms have "fst (aggregate_body P pid) = Inl e"
    by (simp only: aggregate_body_raises_iff)
  then show ?thesis
    by (simp add: get_project_last_activity_with_def error_info_def)
qed

theorem aggregation_error_record_witness:
  "compute_probe (fixed_probes (Inr (None, None)) (Inr (None, None)) (Inl (OtherException ''boom''))) ''p1'' = Inr (None, None)
   \<and> storage_probe (fixed_probes (Inr (None, None)) (Inr (None, None)) (Inl (OtherException ''boom''))) ''p1'' = Inr (None, None)
   \<and> api_usage_probe (fixed_probes (Inr (None, None)) (Inr (None, None)) (Inl (OtherException ''boom''))) ''p1'' = Inl (OtherException ''boom'')
   \<and> get_project_last_activity_with (fixed_probes (Inr (None, None)) (Inr (None, None)) (Inl (OtherException ''boom''))) ''p1'' =
     \<lparr>project_id = ''p1'', last_activity_date = None, activity_source = ''Error'',
      access_issues = Some ''boom''\<rparr>"
  using aggregation_error_record [of "fixed_probes (Inr (None, None)) (Inr (None, None)) (Inl (OtherException ''boom''))" "''p1''" "OtherException ''boom''"]
  by (simp add: fixed_probes_def)

subsection \<open>The sources \<open>''None''\<close> and \<open>''Error''\<close>\<close>

text \<open>
  Claim C2. For every project, the record of the aggregator has the source
  \<open>''None''\<close> if and only if its date is null and none of the probes returned a
  timestamp. The source is \<open>''Error''\<close> only when the aggregation raised, that is,
  when one of the probes it called raised.
\<close>

theorem source_none_iff_nothing_found:
  "(activity_source (get_project_last_activity c pid) = ''None'' \<longleftrightarrow>
      last_activity_date (get_project_last_activity c pid) = None
      \<and> (\<forall>t m. check_compute_last_activity c pid \<noteq> Inr (Some t, m))
      \<and> (\<forall>t m. check_storage_last_activity c pid \<noteq> Inr (Some t, m))
      \<and> (\<forall>t m. check_api_usage_last_activity c pid \<noteq> Inr (Some t, m)))
   \<and> (activity_source (get_project_last_activity_with P pid) = ''Error'' \<longrightarrow>
        (\<exists>e. compute_probe P pid = Inl e
           \<or> (\<exists>r. compute_probe P pid = Inr r) \<and> storage_probe P pid = Inl e
           \<or> (\<exists>ce se. compute_probe P pid = Inr (None, ce) \<and> storage_probe P pid = Inr (None, se))
              \<and> api_usage_probe P pid = Inl e))"
proof
  obtain ca ce where c: "check_compute_last_activity c pid = Inr (ca, ce)"
    using check_compute_returns by blast
  obtain sa se where s: "check_storage_last_activity c pid = Inr (sa, se)"
    using check_storage_returns by blast
  obtain aa ae where a: "check_api_usage_last_activity c pid = Inr (aa, ae)"
    using check_api_usage_returns by blast
  show "activity_source (get_project_last_activity c pid) = ''None'' \<longleftrightarrow>
      last_activity_date (get_project_last_activity c pid) = None
      \<and> (\<forall>t m. check_compute_last_activity c pid \<noteq> Inr (Some t, m))
      \<and> (\<forall>t m. check_storage_last_activity c pid \<noteq> Inr (Some t, m))
      \<and> (\<forall>t m. check_api_usage_last_activity c pid \<noteq> Inr (Some t, m))"
  proof (cases "ca \<noteq> None \<or> sa \<noteq> None")
    case True
    have "get_project_last_activity c pid =
       project_info pid
         (take_if_later ''Cloud Storage'' sa (take_if_later ''Compute Engine'' ca (None, ''None'')))
         (issue_of ''Compute: '' ce @ issue_of ''Storage: '' se)"
      unfolding get_project_last_activity_def
      using True by (intro get_with_found) (simp_all add: gcp_probes_simps c s)
    with True c s show ?thesis
      by (auto simp: project_info_def take_if_later_def split: option.splits)
  next
    case False
    then have n: "ca = None" "sa = None" by simp_all
    have "get_project_last_activity c pid =
       project_info pid
         (case aa of None \<Rightarrow> (None, ''None'') | Some t \<Rightarrow> (Some t, ''API Usage''))
         (issue_of ''Compute: '' ce @ issue_of ''Storage: '' se @ issue_of ''API: '' ae)"
      unfolding get_project_last_activity_def
      by (rule get_with_fallback) (simp_all add: gcp_probes_simps c s a n)
    with n c s a show ?thesis
      by (cases aa) (auto simp: project_info_def)
  qed
next
  show "activity_source (get_project_last_activity_with P pid) = ''Error'' \<longrightarrow>
        (\<exists>e. compute_probe P pid = Inl e
           \<or> (\<exists>r. compute_probe P pid = Inr r) \<and> storage_probe P pid = Inl e
           \<or> (\<exists>ce se. compute_probe P pid = Inr (None, ce) \<and> storage_probe P pid = Inr (None, se))
              \<and> api_usage_probe P pid = Inl e)"
    using source_error_raised [of P pid] by (simp only: aggregate_body_raises_iff) blast
qed


theorem source_none_iff_nothing_found_witness:
  "activity_source (get_project_last_activity cloud_api_disabled ''p1'') = ''None''
   \<and> last_activity_date (get_project_last_activity cloud_api_disabled ''p1'') = None
   \<and> activity_source (get_project_last_activity_with
        (fixed_probes (Inl (OtherException ''boom'')) (Inr (None, None)) (Inr (None, None)))
        ''p1'') = ''Error''
   \<and> compute_probe
        (fixed_probes (Inl (OtherException ''boom'')) (Inr (None, None)) (Inr (None, None)))
        ''p1'' = Inl (OtherException ''boom'')"
  using source_none_iff_nothing_found [of cloud_api_disabled "''p1''"
      "fixed_probes (Inl (OtherException ''boom'')) (Inr (None, None)) (Inr (None, None))"]
  by (simp add: api_disabled_activity fixed_probes_def get_project_last_activity_with_def
      aggregate_body_def error_info_def)

subsection \<open>The order of the probes and the Service-Usage fallback\<close>








lemma services_only_probes:
  "check_compute_last_activity cloud_services_only pid = Inr (None, None)"
  "check_storage_last_activity cloud_services_only pid = Inr (None, None)"
  "check_api_usage_last_activity cloud_services_only pid = Inr (Some (utc 2025 6 1 12 0 0), None)"
  by (simp_all add: check_compute_last_activity_def check_storage_last_activity_def
      check_api_usage_last_activity_def try_except_def compute_body_def storage_body_def
      api_usage_body_def cloud_services_only_def)

lemma services_only_activity:
  "get_project_last_activity cloud_services_only pid =
     \<lparr>project_id = pid, last_activity_date = Some (utc 2025 6 1 12 0 0),
      activity_source = ''API Usage'', access_issues = None\<rparr>"
  "probes_called (gcp_probes cloud_services_only) pid = [Compute, Storage, ApiUsage]"
proof -
  have c: "compute_probe (gcp_probes cloud_services_only) pid = Inr (None, None)"
    and s: "storage_probe (gcp_probes cloud_services_only) pid = Inr (None, None)"
    and a: "api_usage_probe (gcp_probes cloud_services_only) pid
              = Inr (Some (utc 2025 6 1 12 0 0), None)"
    by (simp_all only: gcp_probes_simps services_only_probes)
  show "get_project_last_activity cloud_services_only pid =
     \<lparr>project_id = pid, last_activity_date = Some (utc 2025 6 1 12 0 0),
      activity_source = ''API Usage'', access_issues = None\<rparr>"
    unfolding get_project_last_activity_def get_with_fallback(1) [OF c s a]
    by (simp add: project_info_def issue_of_def)
  show "probes_called (gcp_probes cloud_services_only) pid = [Compute, Storage, ApiUsage]"
    by (rule get_with_fallback(2) [OF c s a])
qed


subsection \<open>Ties between the sources\<close>

text \<open>
  Claim C5. On the timestamps that the called probes returned, the source of the
  record is the first one, in the order Compute Engine, Cloud Storage, API Usage, whose
  timestamp no other exceeds. In particular, when the Compute and the Storage probe
  return the same instant, the record keeps the Compute timestamp and the source
  \<open>''Compute Engine''\<close>.
\<close>

theorem ties_keep_earlier_source:
  assumes "compute_probe P pid = Inr (ca, ce)" and "storage_probe P pid = Inr (sa, se)"
    and "ca = None \<and> sa = None \<longrightarrow> api_usage_probe P pid = Inr (aa, ae)"
  shows "activity_source (get_project_last_activity_with P pid) =
           first_at_maximum
             ([(''Compute Engine'', ca), (''Cloud Storage'', sa)]
              @ (if ca = None \<and> sa = None then [(''API Usage'', aa)] else []))
         \<and> (\<forall>t1 t2. ca = Some t1 \<and> sa = Some t2 \<and> instant t1 = instant t2 \<longrightarrow>
               activity_source (get_project_last_activity_with P pid) = ''Compute Engine''
               \<and> last_activity_date (get_project_last_activity_with P pid) = Some t1)"
proof (cases "ca \<noteq> None \<or> sa \<noteq> None")
  case True
  have r: "get_project_last_activity_with P pid =
     project_info pid
       (take_if_later ''Cloud Storage'' sa (take_if_later ''Compute Engine'' ca (None, ''None'')))
       (issue_of ''Compute: '' ce @ issue_of ''Storage: '' se)"
    using assms(1,2) True by (rule get_with_found)
  show ?thesis
    using True unfolding r
    by (cases ca; cases sa)
       (auto simp: project_info_def take_if_later_def first_at_maximum_def dt_gt_def)
next
  case False
  then have n: "ca = None" "sa = None" by simp_all
  with assms have a: "api_usage_probe P pid = Inr (aa, ae)" by simp
  have r: "get_project_last_activity_with P pid =
     project_info pid
       (case aa of None \<Rightarrow> (None, ''None'') | Some t \<Rightarrow> (Some t, ''API Usage''))
       (issue_of ''Compute: '' ce @ issue_of ''Storage: '' se @ issue_of ''API: '' ae)"
    using assms(1,2) a unfolding n by (rule get_with_fallback)
  show ?thesis
    unfolding r using n
    by (cases aa) (auto simp: project_info_def first_at_maximum_def)
qed

theorem ties_keep_earlier_source_witness:
  "instant new_year_utc = instant new_year_cet
   \<and> activity_source (get_project_last_activity_with
        (fixed_probes (Inr (Some new_year_utc, None)) (Inr (Some new_year_cet, None))
           (Inr (None, None))) ''p1'') = ''Compute Engine''
   \<and> last_activity_date (get_project_last_activity_with
        (fixed_probes (Inr (Some new_year_utc, None)) (Inr (Some new_year_cet, None))
           (Inr (None, None))) ''p1'') = Some new_year_utc"
proof -
  have i: "instant new_year_utc = instant new_year_cet"
    by (simp add: new_year_utc_def new_year_cet_def utc_def instant_def toordinal_def)
  show ?thesis
    using i ties_keep_earlier_source [where P = "fixed_probes (Inr (Some new_year_utc, None))
        (Inr (Some new_year_cet, None)) (Inr (None, None))" and pid = "''p1''"
        and ca = "Some new_year_utc" and ce = None and sa = "Some new_year_cet" and se = None
        and aa = None and ae = None]
    by (simp add: fixed_probes_def first_at_maximum_def)
qed

subsection \<open>The access issues\<close>

lemma str_contains_at: "str_contains sub (pre @ sub @ post)"
proof (induction pre)
  case Nil
  show ?case
  proof (cases "sub @ post")
    case Nil
    then show ?thesis by simp
  next
    case (Cons a l)
    have "take (length sub) (sub @ post) = sub" by simp
    then have "str_contains sub (a # l)" by (simp add: Cons)
    then show ?thesis by (simp add: Cons)
  qed
next
  case (Cons c pre)
  then show ?case by simp
qed

lemma str_join_member: "x \<in> set xs \<Longrightarrow> \<exists>pre post. str_join sep xs = pre @ x @ post"
proof (induction sep xs rule: str_join.induct)
  case (1 sep)
  then show ?case by simp
next
  case (2 sep y)
  then have "str_join sep [y] = [] @ x @ []" by simp
  then show ?case by blast
next
  case (3 sep y z zs)
  show ?case
  proof (cases "x = y")
    case True
    then have "str_join sep (y # z # zs) = [] @ x @ (sep @ str_join sep (z # zs))" by simp
    then show ?thesis by blast
  next
    case False
    with 3 obtain pre post where "str_join sep (z # zs) = pre @ x @ post" by auto
    then have "str_join sep (y # z # zs) = (y @ sep @ pre) @ x @ post" by simp
    then show ?thesis by blast
  qed
qed

lemma str_contains_join: "x \<in> set xs \<Longrightarrow> str_contains x (str_join sep xs)"
  using str_join_member [of x xs sep] str_contains_at by fastforce

lemma str_join_nonempty:
  assumes "xs \<noteq> []" and "[] \<notin> set xs"
  shows "str_join sep xs \<noteq> []"
proof (cases xs)
  case Nil
  with assms show ?thesis by simp
next
  case (Cons x ys)
  with assms show ?thesis by (cases ys) auto
qed

lemma issue_of_nonempty: "[] \<notin> set (issue_of prefix error)"
  by (auto simp: issue_of_def split: option.splits)

lemma issue_of_empty_iff: "issue_of prefix error = [] \<longleftrightarrow> \<not> truthy_str error"
  by (cases error) (auto simp: issue_of_def)

lemma normal_access_issues:
  assumes "compute_probe P pid = Inr (ca, ce)" and "storage_probe P pid = Inr (sa, se)"
    and "ca = None \<and> sa = None \<longrightarrow> api_usage_probe P pid = Inr (aa, ae)"
  shows "access_issues (get_project_last_activity_with P pid) =
     (if issues_called ca ce sa se ae = [] then None
      else Some (str_join ''; '' (issues_called ca ce sa se ae)))"
proof (cases "ca \<noteq> None \<or> sa \<noteq> None")
  case True
  show ?thesis
    unfolding get_with_found(1) [OF assms(1,2) True] using True
    by (auto simp: project_info_def issues_called_def)
next
  case False
  then have n: "ca = None" "sa = None" by simp_all
  with assms have a: "api_usage_probe P pid = Inr (aa, ae)" by simp
  show ?thesis
    unfolding get_with_fallback(1) [OF assms(1,2) [unfolded n] a] using n
    by (auto simp: project_info_def issues_called_def)
qed

lemma normal_date_source:
  assumes "compute_probe P pid = Inr (ca, ce)" and "storage_probe P pid = Inr (sa, se)"
    and "ca = None \<and> sa = None \<longrightarrow> api_usage_probe P pid = Inr (aa, ae)"
  shows "(last_activity_date (get_project_last_activity_with P pid),
          activity_source (get_project_last_activity_with P pid)) =
     (if ca = None \<and> sa = None
      then (case aa of None \<Rightarrow> (None, ''None'') | Some t \<Rightarrow> (Some t, ''API Usage''))
      else take_if_later ''Cloud Storage'' sa (take_if_later ''Compute Engine'' ca (None, ''None'')))"
proof (cases "ca \<noteq> None \<or> sa \<noteq> None")
  case True
  show ?thesis
    unfolding get_with_found(1) [OF assms(1,2) True] using True
    by (auto simp: project_info_def)
next
  case False
  then have n: "ca = None" "sa = None" by simp_all
  with assms have a: "api_usage_probe P pid = Inr (aa, ae)" by simp
  show ?thesis
    unfolding get_with_fallback(1) [OF assms(1,2) [unfolded n] a] using n
    by (auto simp: project_info_def)
qed

text \<open>
  Claim C6, as stated, fails: the Compute call of this project fails with an exception
  whose message is empty, the probe returns the empty error string, and the aggregator,
  which tests \<^verbatim>\<open>if compute_error:\<close>, records nothing for it.
\<close>

theorem empty_error_not_reported:
  "check_compute_last_activity cloud_empty_message ''p1'' = Inr (None, Some [])
   \<and> probes_called (gcp_probes cloud_empty_message) ''p1'' = [Compute, Storage, ApiUsage]
   \<and> access_issues (get_project_last_activity cloud_empty_message ''p1'') = None"
  by (simp add: get_project_last_activity_def get_project_last_activity_with_def
      probes_called_def aggregate_body_def gcp_probes_def
      check_compute_last_activity_def check_storage_last_activity_def
      check_api_usage_last_activity_def try_except_def compute_body_def storage_body_def
      api_usage_body_def cloud_empty_message_def note_issue_def take_if_later_def
      project_info_def)

text \<open>
  Claim C6, amended. Every non-empty error string returned by a probe that was called
  is in \<open>access_issues\<close>, prefixed by its source name, and \<open>access_issues\<close> is these
  entries joined by \<open>''; ''\<close> in call order (null when there is none). The date and the
  source of the record are determined by the timestamps alone, whatever the errors.
\<close>

theorem nonempty_errors_reported:
  assumes "compute_probe P pid = Inr (ca, ce)" and "storage_probe P pid = Inr (sa, se)"
    and "ca = None \<and> sa = None \<longrightarrow> api_usage_probe P pid = Inr (aa, ae)"
  shows "access_issues (get_project_last_activity_with P pid) =
           (if issues_called ca ce sa se ae = [] then None
            else Some (str_join ''; '' (issues_called ca ce sa se ae)))
     \<and> (\<forall>msg. msg \<noteq> [] \<and> ce = Some msg \<longrightarrow>
           (\<exists>s. access_issues (get_project_last_activity_with P pid) = Some s
              \<and> str_contains (''Compute: '' @ msg) s))
     \<and> (\<forall>msg. msg \<noteq> [] \<and> se = Some msg \<longrightarrow>
           (\<exists>s. access_issues (get_project_last_activity_with P pid) = Some s
              \<and> str_contains (''Storage: '' @ msg) s))
     \<and> (\<forall>msg. msg \<noteq> [] \<and> ae = Some msg \<and> ca = None \<and> sa = None \<longrightarrow>
           (\<exists>s. access_issues (get_project_last_activity_with P pid) = Some s
              \<and> str_contains (''API: '' @ msg) s))
     \<and> (last_activity_date (get_project_last_activity_with P pid),
          activity_source (get_project_last_activity_with P pid)) =
        (if ca = None \<and> sa = None
         then (case aa of None \<Rightarrow> (None, ''None'') | Some t \<Rightarrow> (Some t, ''API Usage''))
         else take_if_later ''Cloud Storage'' sa
                (take_if_later ''Compute Engine'' ca (None, ''None'')))"
proof -
  note ai = normal_access_issues [OF assms]
  have mem: "x \<in> set (issues_called ca ce sa se ae) \<Longrightarrow>
      \<exists>s. access_issues (get_project_last_activity_with P pid) = Some s \<and> str_contains x s" for x
    unfolding ai using str_contains_join [of x "issues_called ca ce sa se ae" "''; ''"]
    by auto
  have c: "\<forall>msg. msg \<noteq> [] \<and> ce = Some msg \<longrightarrow>
           (\<exists>s. access_issues (get_project_last_activity_with P pid) = Some s
              \<and> str_contains (''Compute: '' @ msg) s)"
    by (intro allI impI mem) (auto simp: issues_called_def issue_of_def)
  have s: "\<forall>msg. msg \<noteq> [] \<and> se = Some msg \<longrightarrow>
           (\<exists>s. access_issues (get_project_last_activity_with P pid) = Some s
              \<and> str_contains (''Storage: '' @ msg) s)"
    by (intro allI impI mem) (auto simp: issues_called_def issue_of_def)
  have a: "\<forall>msg. msg \<noteq> [] \<and> ae = Some msg \<and> ca = None \<and> sa = None \<longrightarrow>
           (\<exists>s. access_issues (get_project_last_activity_with P pid) = Some s
              \<and> str_contains (''API: '' @ msg) s)"
    by (intro allI impI mem) (auto simp: issues_called_def issue_of_def)
  show ?thesis
    using ai c s a normal_date_source [OF assms] by blast
qed


theorem nonempty_errors_reported_witness:
  "access_issues (get_project_last_activity_with
      (fixed_probes (Inr (None, Some ''API not enabled'')) (Inr (Some new_year_utc, None))
         (Inr (None, None))) ''p1'') = Some ''Compute: API not enabled''
   \<and> last_activity_date (get_project_last_activity_with
      (fixed_probes (Inr (None, Some ''API not enabled'')) (Inr (Some new_year_utc, None))
         (Inr (None, None))) ''p1'') = Some new_year_utc
   \<and> activity_source (get_project_last_activity_with
      (fixed_probes (Inr (None, Some ''API not enabled'')) (Inr (Some new_year_utc, None))
         (Inr (None, None))) ''p1'') = ''Cloud Storage''"
  using nonempty_errors_reported [where P = "fixed_probes (Inr (None, Some ''API not enabled''))
      (Inr (Some new_year_utc, None)) (Inr (None, None))" and pid = "''p1''"
      and ca = None and ce = "Some ''API not enabled''" and sa = "Some new_year_utc"
      and se = None and aa = None and ae = None]
  by (simp add: fixed_probes_def issues_called_def issue_of_def take_if_later_def)

lemma issues_called_nonempty: "[] \<notin> set (issues_called ca ce sa se ae)"
  using issue_of_nonempty by (auto simp: issues_called_def)

lemma issues_called_empty_iff:
  "issues_called ca ce sa se ae = [] \<longleftrightarrow>
     \<not> truthy_str ce \<and> \<not> truthy_str se \<and> (ca = None \<and> sa = None \<longrightarrow> \<not> truthy_str ae)"
  by (auto simp: issues_called_def issue_of_empty_iff)

lemma aggregate_body_returns:
  assumes "fst (aggregate_body P pid) = Inr info"
  shows "\<exists>ca ce sa se aa ae. compute_probe P pid = Inr (ca, ce) \<and> storage_probe P pid = Inr (sa, se)
     \<and> (ca = None \<and> sa = None \<longrightarrow> api_usage_probe P pid = Inr (aa, ae))"
proof -
  obtain ca ce where c: "compute_probe P pid = Inr (ca, ce)"
    using assms by (cases "compute_probe P pid") (auto simp: aggregate_body_def)
  obtain sa se where s: "storage_probe P pid = Inr (sa, se)"
    using assms c by (cases "storage_probe P pid") (auto simp: aggregate_body_def Let_def)
  have "ca = None \<and> sa = None \<longrightarrow> (\<exists>aa ae. api_usage_probe P pid = Inr (aa, ae))"
    using assms c s
    by (cases ca; cases sa; cases "api_usage_probe P pid")
       (auto simp: aggregate_body_def Let_def take_if_later_def)
  with c s show ?thesis by blast
qed

lemma project_id_kept: "project_id (get_project_last_activity_with P pid) = pid"
  by (auto simp: get_project_last_activity_with_def aggregate_body_def Let_def error_info_def
      project_info_def split: sum.splits prod.splits option.splits)

lemma info_dict_items:
  "info_dict info =
     [(''project_id'', PStr (project_id info)),
      (''last_activity_date'',
         case last_activity_date info of None \<Rightarrow> PNone | Some t \<Rightarrow> PDatetime t),
      (''activity_source'', PStr (activity_source info)),
      (''access_issues'', case access_issues info of None \<Rightarrow> PNone | Some s \<Rightarrow> PStr s)]"
  by (simp add: info_dict_def dict_set_def)

lemma returned_dict_items:
  "returned_dict P pid = info_dict (get_project_last_activity_with P pid)"
  by (cases "fst (aggregate_body P pid)")
     (simp_all add: returned_dict_def get_project_last_activity_with_def info_dict_items
        error_dict_def error_info_def)

lemma gcp_aggregate_returns: "\<exists>info. fst (aggregate_body (gcp_probes c) pid) = Inr info"
proof -
  obtain ca ce where c: "compute_probe (gcp_probes c) pid = Inr (ca, ce)"
    using check_compute_returns [of c pid] by (auto simp: gcp_probes_simps)
  obtain sa se where s: "storage_probe (gcp_probes c) pid = Inr (sa, se)"
    using check_storage_returns [of c pid] by (auto simp: gcp_probes_simps)
  obtain aa ae where a: "api_usage_probe (gcp_probes c) pid = Inr (aa, ae)"
    using check_api_usage_returns [of c pid] by (auto simp: gcp_probes_simps)
  show ?thesis
  proof (cases "ca \<noteq> None \<or> sa \<noteq> None")
    case True
    from aggregate_body_found [OF c s True] show ?thesis by simp
  next
    case False
    then have n: "ca = None" "sa = None" by simp_all
    from aggregate_body_fallback [OF c [unfolded n] s [unfolded n] a] show ?thesis by simp
  qed
qed

lemma normal_access_issues_nonempty:
  assumes "fst (aggregate_body P pid) = Inr info"
  shows "access_issues (get_project_last_activity_with P pid) \<noteq> Some []"
proof -
  from assms obtain ca ce sa se aa ae where
    h: "compute_probe P pid = Inr (ca, ce)" "storage_probe P pid = Inr (sa, se)"
       "ca = None \<and> sa = None \<longrightarrow> api_usage_probe P pid = Inr (aa, ae)"
    using aggregate_body_returns by blast
  show ?thesis
    unfolding normal_access_issues [OF h]
    using str_join_nonempty [OF _ issues_called_nonempty, of ca ce sa se ae "''; ''"]
    by auto
qed

text \<open>
  Claim C10. The dictionary that the aggregator returns has exactly the four keys
  \<^verbatim>\<open>project_id\<close>, \<^verbatim>\<open>last_activity_date\<close>, \<^verbatim>\<open>activity_source\<close> and
  \<^verbatim>\<open>access_issues\<close>, on the normal and on the error path, whatever the probes do,
  and the record is its reading. For every project the aggregation with the module's
  probes returns normally, and \<open>access_issues\<close> is null or a non-empty string, never
  the empty string; it is null when no probe that ran reported an error (exactly when
  none reported a non-empty one).
\<close>

theorem access_issues_shape:
  "dict_keys (returned_dict P pid)
     = [''project_id'', ''last_activity_date'', ''activity_source'', ''access_issues'']
   \<and> returned_dict P pid =
       [(''project_id'', PStr pid),
        (''last_activity_date'',
           case last_activity_date (get_project_last_activity_with P pid) of
             None \<Rightarrow> PNone | Some t \<Rightarrow> PDatetime t),
        (''activity_source'', PStr (activity_source (get_project_last_activity_with P pid))),
        (''access_issues'',
           case access_issues (get_project_last_activity_with P pid) of
             None \<Rightarrow> PNone | Some s \<Rightarrow> PStr s)]
   \<and> (\<exists>info. fst (aggregate_body (gcp_probes c) pid) = Inr info)
   \<and> access_issues (get_project_last_activity c pid) \<noteq> Some []
   \<and> ((\<exists>info. fst (aggregate_body P pid) = Inr info) \<longrightarrow>
        access_issues (get_project_last_activity_with P pid) \<noteq> Some [])
   \<and> (check_compute_last_activity c pid = Inr (ca, ce)
        \<and> check_storage_last_activity c pid = Inr (sa, se)
        \<and> (ca = None \<and> sa = None \<longrightarrow> check_api_usage_last_activity c pid = Inr (aa, ae)) \<longrightarrow>
        (ce = None \<and> se = None \<and> (ca = None \<and> sa = None \<longrightarrow> ae = None) \<longrightarrow>
           access_issues (get_project_last_activity c pid) = None)
        \<and> (access_issues (get_project_last_activity c pid) = None \<longleftrightarrow>
             \<not> truthy_str ce \<and> \<not> truthy_str se
             \<and> (ca = None \<and> sa = None \<longrightarrow> \<not> truthy_str ae)))"
proof -
  have items: "returned_dict P pid =
       [(''project_id'', PStr pid),
        (''last_activity_date'',
           case last_activity_date (get_project_last_activity_with P pid) of
             None \<Rightarrow> PNone | Some t \<Rightarrow> PDatetime t),
        (''activity_source'', PStr (activity_source (get_project_last_activity_with P pid))),
        (''access_issues'',
           case access_issues (get_project_last_activity_with P pid) of
             None \<Rightarrow> PNone | Some s \<Rightarrow> PStr s)]"
    by (simp add: returned_dict_items info_dict_items project_id_kept)
  then have keys: "dict_keys (returned_dict P pid)
     = [''project_id'', ''last_activity_date'', ''activity_source'', ''access_issues'']"
    by (simp add: dict_keys_def)
  have open_normal: "(\<exists>info. fst (aggregate_body P pid) = Inr info) \<longrightarrow>
        access_issues (get_project_last_activity_with P pid) \<noteq> Some []"
    using normal_access_issues_nonempty by blast
  have closed: "access_issues (get_project_last_activity c pid) \<noteq> Some []"
    using gcp_aggregate_returns [of c pid] normal_access_issues_nonempty
    unfolding get_project_last_activity_def by blast
  have none: "check_compute_last_activity c pid = Inr (ca, ce)
        \<and> check_storage_last_activity c pid = Inr (sa, se)
        \<and> (ca = None \<and> sa = None \<longrightarrow> check_api_usage_last_activity c pid = Inr (aa, ae)) \<longrightarrow>
        (ce = None \<and> se = None \<and> (ca = None \<and> sa = None \<longrightarrow> ae = None) \<longrightarrow>
           access_issues (get_project_last_activity c pid) = None)
        \<and> (access_issues (get_project_last_activity c pid) = None \<longleftrightarrow>
             \<not> truthy_str ce \<and> \<not> truthy_str se
             \<and> (ca = None \<and> sa = None \<longrightarrow> \<not> truthy_str ae))"
  proof
    assume h: "check_compute_last_activity c pid = Inr (ca, ce)
        \<and> check_storage_last_activity c pid = Inr (sa, se)
        \<and> (ca = None \<and> sa = None \<longrightarrow> check_api_usage_last_activity c pid = Inr (aa, ae))"
    then have "access_issues (get_project_last_activity c pid) =
       (if issues_called ca ce sa se ae = [] then None
        else Some (str_join ''; '' (issues_called ca ce sa se ae)))"
      unfolding get_project_last_activity_def
      using normal_access_issues [of "gcp_probes c" pid ca ce sa se aa ae]
      by (simp add: gcp_probes_simps)
    then have iff: "access_issues (get_project_last_activity c pid) = None \<longleftrightarrow>
             \<not> truthy_str ce \<and> \<not> truthy_str se
             \<and> (ca = None \<and> sa = None \<longrightarrow> \<not> truthy_str ae)"
      by (simp add: issues_called_empty_iff)
    then have "ce = None \<and> se = None \<and> (ca = None \<and> sa = None \<longrightarrow> ae = None) \<longrightarrow>
           access_issues (get_project_last_activity c pid) = None"
      by auto
    with iff show "(ce = None \<and> se = None \<and> (ca = None \<and> sa = None \<longrightarrow> ae = None) \<longrightarrow>
           access_issues (get_project_last_activity c pid) = None)
        \<and> (access_issues (get_project_last_activity c pid) = None \<longleftrightarrow>
             \<not> truthy_str ce \<and> \<not> truthy_str se
             \<and> (ca = None \<and> sa = None \<longrightarrow> \<not> truthy_str ae))"
      by blast
  qed
  show ?thesis
    using keys items gcp_aggregate_returns [of c pid] closed open_normal none by blast
qed

theorem access_issues_shape_witness:
  "dict_keys (returned_dict (gcp_probes cloud_api_disabled) ''p1'')
     = [''project_id'', ''last_activity_date'', ''activity_source'', ''access_issues'']
   \<and> dict_keys (returned_dict
        (fixed_probes (Inr (None, None)) (Inl (OtherException ''boom'')) (Inr (None, None)))
        ''p1'')
     = [''project_id'', ''last_activity_date'', ''activity_source'', ''access_issues'']
   \<and> access_issues (get_project_last_activity cloud_api_disabled ''p1'')
     = Some ''Compute: API not enabled; Storage: API not enabled; API: API not enabled''
   \<and> check_compute_last_activity cloud_services_only ''p2'' = Inr (None, None)
   \<and> check_storage_last_activity cloud_services_only ''p2'' = Inr (None, None)
   \<and> check_api_usage_last_activity cloud_services_only ''p2''
       = Inr (Some (utc 2025 6 1 12 0 0), None)
   \<and> access_issues (get_project_last_activity cloud_services_only ''p2'') = None"
  using
    access_issues_shape [where P = "gcp_probes cloud_api_disabled" and pid = "''p1''"
      and c = cloud_api_disabled and ca = None and ce = "Some ''API not enabled''"
      and sa = None and se = "Some ''API not enabled''" and aa = None
      and ae = "Some ''API not enabled''"]
    access_issues_shape [where P = "fixed_probes (Inr (None, None))
      (Inl (OtherException ''boom'')) (Inr (None, None))" and pid = "''p1''"
      and c = cloud_services_only and ca = None and ce = None and sa = None and se = None
      and aa = "Some (utc 2025 6 1 12 0 0)" and ae = None]
    access_issues_shape [where P = "gcp_probes cloud_services_only" and pid = "''p2''"
      and c = cloud_services_only and ca = None and ce = None and sa = None and se = None
      and aa = "Some (utc 2025 6 1 12 0 0)" and ae = None]
  by (simp add: api_disabled_activity services_only_probes services_only_activity
      dict_keys_def)

section \<open>The sort\<close>

text \<open>
  Claim C1 at the specification's example. The records dated 2024-01-01, null and
  2025-06-01 are sorted to null, 2025-06-01, 2024-01-01: the first component of the
  key is true for a record without a date, and the descending sort puts the larger key
  first. The dated records are in descending order behind the undated one.
\<close>

theorem sort_projects_undated_first:
  "sort_projects [dated ''a'' (Some jan_1_2024), dated ''b'' None, dated ''c'' (Some june_1)]
   = [dated ''b'' None, dated ''c'' (Some june_1), dated ''a'' (Some jan_1_2024)]"
  by (simp add: sort_projects_def sort_key_of_def dated_def jan_1_2024_def june_1_def utc_def
      instant_def toordinal_def days_before_year_def days_before_month_def is_leap_def
      datetime_min_def)

section \<open>The report\<close>

subsection \<open>The cells of the written sheet\<close>

lemma ws_cell_simps [simp]:
  "cells (ws_cell r c v ws) k = (if k = (r, c) then Some v else cells ws k)"
  "max_row (ws_cell r c v ws) = max (max_row ws) r"
  "max_column (ws_cell r c v ws) = max (max_column ws) c"
  "column_width (ws_cell r c v ws) = column_width ws"
  by (simp_all add: ws_cell_def)












lemma str_nat_nonempty: "0 < length (str_nat n)"
  by (subst str_nat.simps) simp

lemma zero_pad_length: "length (zero_pad w s) = max w (length s)"
  by (simp add: zero_pad_def)

lemma strftime_fields:
  "strftime_ymd_hms d =
     str_nat (year d) @ ''-'' @ zero_pad 2 (str_nat (month d)) @ ''-''
     @ zero_pad 2 (str_nat (day d)) @ '' '' @ zero_pad 2 (str_nat (hour d)) @ '':''
     @ zero_pad 2 (str_nat (minute d)) @ '':'' @ zero_pad 2 (str_nat (second d))"
  by (simp add: strftime_ymd_hms_def directive_def)











lemma june_strftime: "strftime_ymd_hms june_1 = ''2025-06-01 00:00:00''"
  by (simp add: june_1_def strftime_fields utc_def zero_pad_def str_nat.simps digit_char_def)









subsection \<open>The column widths\<close>

























end
